theory Spec2Isabelle
  imports Complex_Main
begin

section \<open>BitcoinProcessor: data model\<close>

text \<open>
  The embedding follows \<^verbatim>\<open>class BitcoinProcessor\<close> (second document of
  \<^verbatim>\<open>src/lib/ipfs/Util/Timeout.ts\<close>). JavaScript numbers that hold block heights,
  transaction numbers, satoshi amounts and timeouts are modelled as \<open>int\<close> (all of them
  are integers far below \<open>2^53\<close>); \<open>quantileScale\<close> is a fraction and is a \<open>real\<close>, the
  rounding of doubles is not modelled. Strings are byte lists. The batch size is a positive
  integer in every configuration: \<open>Math.floor (x / 0)\<close> is not a number in JavaScript,
  while \<open>x div 0 = 0\<close> in HOL, so the theorems that depend on the division assume
  \<open>0 < batchSizeInBlocks\<close>.
\<close>

text \<open>Configuration: the fields of \<^verbatim>\<open>IBitcoinConfig\<close> and \<^verbatim>\<open>IProofOfFeeConfig\<close>
  that the modelled methods read.\<close>

record Config =
  sidetreePrefix :: string
  genesisBlockNumber :: int
  pageSize :: int
  requestTimeout :: int
  maxRetries :: int
  historicalOffsetInBlocks :: int
  quantileScale :: real
  batchSizeInBlocks :: int
  maxTransactionInputCount :: int

text \<open>Everything the methods throw. \<open>RequestError\<close> carries the response status and the
  optional error code; the other constructors stand for \<^verbatim>\<open>Error\<close> objects.\<close>

datatype ResponseStatus = BadRequest | NotFound | ServerError

datatype ErrorCode = InvalidTransactionNumberOrTimeHash

datatype error =
    RequestError ResponseStatus "ErrorCode option"
  | RpcError
  | TypeError
  | MoreThanOneAnchor
  | BeforeGenesis
  | QuantileStoreError

record TransactionModel =
  transactionNumber :: int
  transactionTime :: int
  transactionTimeHash :: string
  anchorString :: string
  feePaid :: int

record IBlockInfo =
  height :: int
  hash :: string

subsection \<open>The upstream chain\<close>

text \<open>
  A transaction as \<^verbatim>\<open>getblock\<close> (verbosity 2) and \<^verbatim>\<open>getrawtransaction\<close> return it.
  \<open>vin\<close> and \<open>vout\<close> may be missing from the object (\<open>None\<close>). An output's \<open>satoshis\<close>
  is \<^verbatim>\<open>Math.round (value * satoshiPerBTC)\<close>; \<open>asm\<close> is \<^verbatim>\<open>scriptPubKey.asm\<close>.
\<close>

record TxIn =
  prevTxid :: string
  prevVout :: int

record TxOut =
  satoshis :: int
  n :: int
  asm :: string

record BitcoinTransaction =
  txid :: string
  vin :: "TxIn list option"
  vout :: "TxOut list option"

record BlockData =
  blockHash :: string
  tx :: "BitcoinTransaction list"

text \<open>
  The results of \<^verbatim>\<open>rpcCall\<close> for the four methods the read path uses, at one moment of
  the upstream chain; \<open>None\<close> is a call that throws (a failed fetch, a status other than
  200, an RPC error).
\<close>

record Upstream =
  getblockcount :: "int option"
  getblockhash :: "int \<Rightarrow> string option"
  getblock :: "string \<Rightarrow> BlockData option"
  getrawtransaction :: "string \<Rightarrow> BitcoinTransaction option"

subsection \<open>TransactionNumber\<close>

text \<open>
  Modelled from the spec: \<^verbatim>\<open>TransactionNumber\<close> (\<^verbatim>\<open>./TransactionNumber\<close> is not among the
  sources). Section 6: \<open>transaction_number = block_height * 2^24 + index_within_block\<close>,
  \<open>block_of n = n >> 24\<close>.
\<close>

definition construct :: "int \<Rightarrow> int \<Rightarrow> int" where
  "construct blockNumber transactionIndex = blockNumber * 2 ^ 24 + transactionIndex"

definition getBlockNumber :: "int \<Rightarrow> int" where
  "getBlockNumber transactionNum = transactionNum div 2 ^ 24"

subsection \<open>The transaction store\<close>

text \<open>
  Modelled from the spec: \<^verbatim>\<open>MongoDbTransactionStore\<close> (not among the sources), section 4.5.
  The log is the list of its records in ascending order of \<open>transactionNumber\<close>.
\<close>

type_synonym TransactionStore = "TransactionModel list"

definition getTransactionsCount :: "TransactionStore \<Rightarrow> int" where
  "getTransactionsCount store = int (length store)"

text \<open>\<open>append\<close>: total order on the transaction number; a duplicate number is rejected.\<close>

fun addTransaction :: "TransactionModel \<Rightarrow> TransactionStore \<Rightarrow> TransactionStore" where
  "addTransaction t [] = [t]"
| "addTransaction t (r # rs) =
     (if transactionNumber t = transactionNumber r then r # rs
      else if transactionNumber t < transactionNumber r then t # r # rs
      else r # addTransaction t rs)"

text \<open>\<open>later_than\<close>: up to \<open>limit\<close> records with a number greater than \<open>txnum\<close>, ascending;
  \<open>None\<close> means from the beginning.\<close>

definition getTransactionsLaterThan ::
  "int option \<Rightarrow> int \<Rightarrow> TransactionStore \<Rightarrow> TransactionModel list" where
  "getTransactionsLaterThan since limit store =
     take (nat limit)
       (case since of
          None \<Rightarrow> store
        | Some txnum \<Rightarrow> filter (\<lambda>t. txnum < transactionNumber t) store)"

text \<open>\<open>remove_later_than\<close>: deletes all records strictly greater than \<open>txnum\<close>.\<close>

definition removeTransactionsLaterThan :: "int \<Rightarrow> TransactionStore \<Rightarrow> TransactionStore" where
  "removeTransactionsLaterThan txnum store =
     filter (\<lambda>t. transactionNumber t \<le> txnum) store"

text \<open>\<open>exponentially_spaced\<close>: the records at offsets 0, 1, 2, 4, 8, 16, ... from the tail,
  one per offset that exists.\<close>

function exponentialOffsets :: "nat \<Rightarrow> nat \<Rightarrow> nat list" where
  "exponentialOffsets offset count =
     (if 0 < offset \<and> offset < count
      then offset # exponentialOffsets (2 * offset) count
      else [])"
  by pat_completeness auto
termination
  by (relation "measure (\<lambda>(offset, count). count - offset)") auto

definition getExponentiallySpacedTransactions :: "TransactionStore \<Rightarrow> TransactionModel list" where
  "getExponentiallySpacedTransactions store =
     (if store = [] then []
      else map (\<lambda>offset. rev store ! offset) (0 # exponentialOffsets 1 (length store)))"

subsection \<open>The reservoir sampler and the quantile calculator\<close>

text \<open>
  Modelled from the spec: \<^verbatim>\<open>ReservoirSampler\<close> (\<^verbatim>\<open>./PsuedoRandomSampler\<close> is not among the
  sources), section 4.3. Its pseudo-random choices are a function of the seeds and of the
  elements offered, so the sampler is modelled by the sequence of calls made on it since it
  was created; which of the offered elements \<^verbatim>\<open>getSample\<close> returns is a parameter of the
  model (\<open>getSample\<close> of \<open>Components\<close> below).
\<close>

datatype SamplerCall =
    ResetPsuedoRandomSeed string
  | AddElement string
  | Clear

type_synonym ReservoirSampler = "SamplerCall list"

text \<open>
  Modelled from the spec: \<^verbatim>\<open>SlidingWindowQuantileCalculator\<close> (not among the sources),
  sections 3 and 4.4: the persisted snapshots \<open>(batch_id, quantile_value, frequency_vector)\<close>.
  \<open>quantile batch_id\<close> returns the persisted value if present; \<open>remove_batches_ge batch_id\<close>
  drops all snapshots with id \<open>\<ge> batch_id\<close>. How \<^verbatim>\<open>add\<close> computes a snapshot is a parameter
  of the model (\<open>quantileAdd\<close> of \<open>Components\<close> below; \<open>None\<close> is a failed call).
\<close>

record BatchQuantileSnapshot =
  batchId :: int
  quantileValue :: int
  frequencyVector :: "nat list"

type_synonym QuantileCalculator = "BatchQuantileSnapshot list"

definition getQuantile :: "QuantileCalculator \<Rightarrow> int \<Rightarrow> int option" where
  "getQuantile snapshots batch =
     map_option quantileValue (find (\<lambda>s. batchId s = batch) snapshots)"

definition removeBatchesGreaterThanOrEqual :: "int \<Rightarrow> QuantileCalculator \<Rightarrow> QuantileCalculator" where
  "removeBatchesGreaterThanOrEqual batch snapshots = filter (\<lambda>s. batchId s < batch) snapshots"

record Components =
  getSample :: "ReservoirSampler \<Rightarrow> string list"
  quantileAdd :: "int \<Rightarrow> int list \<Rightarrow> QuantileCalculator \<Rightarrow> QuantileCalculator option"

subsection \<open>The processor's state\<close>

record State =
  transactionStore :: TransactionStore
  transactionSampler :: ReservoirSampler
  quantileCalculator :: QuantileCalculator

section \<open>Verifying a block against the upstream\<close>

text \<open>\<^verbatim>\<open>getBlockHash\<close> and \<^verbatim>\<open>verifyBlock\<close>: the hash the upstream has at a height, compared
  with the given one.\<close>

definition getBlockHash :: "Upstream \<Rightarrow> int \<Rightarrow> error + string" where
  "getBlockHash up h = (case getblockhash up h of None \<Rightarrow> Inl RpcError | Some r \<Rightarrow> Inr r)"

definition verifyBlock :: "Upstream \<Rightarrow> int \<Rightarrow> string \<Rightarrow> error + bool" where
  "verifyBlock up h hsh =
     (case getBlockHash up h of Inl e \<Rightarrow> Inl e | Inr responseData \<Rightarrow> Inr (hsh = responseData))"

text \<open>\<^verbatim>\<open>firstValidTransaction\<close>: the first transaction of the list whose block is still the
  upstream's.\<close>

fun firstValidTransaction ::
  "Upstream \<Rightarrow> TransactionModel list \<Rightarrow> error + TransactionModel option" where
  "firstValidTransaction up [] = Inr None"
| "firstValidTransaction up (t # ts) =
     (case verifyBlock up (transactionTime t) (transactionTimeHash t) of
        Inl e \<Rightarrow> Inl e
      | Inr valid \<Rightarrow> if valid then Inr (Some t) else firstValidTransaction up ts)"

section \<open>Rollback\<close>

definition roundToBatchBoundary :: "Config \<Rightarrow> int \<Rightarrow> int" where
  "roundToBatchBoundary cfg block =
     (let batch = block div batchSizeInBlocks cfg
      in batch * batchSizeInBlocks cfg)"

definition getBatchId :: "Config \<Rightarrow> int \<Rightarrow> int" where
  "getBatchId cfg block = block div batchSizeInBlocks cfg"

text \<open>Block heights are not negative, where \<^verbatim>\<open>%\<close> and \<open>mod\<close> agree.\<close>

definition isBatchBoundary :: "Config \<Rightarrow> int \<Rightarrow> bool" where
  "isBatchBoundary cfg block = ((block + 1) mod batchSizeInBlocks cfg = 0)"

text \<open>
  \<^verbatim>\<open>revertBlockchainCache\<close>. The \<^verbatim>\<open>while\<close> loop may run forever, so the function is
  partial: \<open>None\<close> is a call that never returns. A returned pair is what the call returns or
  throws, and the state it leaves.
\<close>

partial_function (option) revertBlockchainCache ::
  "Config \<Rightarrow> Upstream \<Rightarrow> State \<Rightarrow> ((error + int) \<times> State) option" where
  "revertBlockchainCache cfg up st =
     (if 0 < getTransactionsCount (transactionStore st) then
        (let exponentiallySpacedTransactions =
               getExponentiallySpacedTransactions (transactionStore st)
         in case firstValidTransaction up exponentiallySpacedTransactions of
              Inl e \<Rightarrow> Some (Inl e, st)
            | Inr (Some firstValid) \<Rightarrow>
                (let revertToBlockNumber =
                       roundToBatchBoundary cfg (transactionTime firstValid + 1);
                     revertToTransactionNumber = construct revertToBlockNumber 0 - 1
                 in Some (Inr revertToBlockNumber,
                      st\<lparr>transactionStore :=
                            removeTransactionsLaterThan revertToTransactionNumber
                              (transactionStore st),
                          transactionSampler := transactionSampler st @ [Clear],
                          quantileCalculator :=
                            removeBatchesGreaterThanOrEqual revertToBlockNumber
                              (quantileCalculator st)\<rparr>))
            | Inr None \<Rightarrow>
                (case rev exponentiallySpacedTransactions of
                   [] \<Rightarrow> Some (Inl TypeError, st)
                 | lowest # _ \<Rightarrow>
                     (let lowestHeight = transactionTime lowest;
                          revertToTransactionNumber = construct lowestHeight 0
                      in revertBlockchainCache cfg up
                           (st\<lparr>transactionStore :=
                                 removeTransactionsLaterThan revertToTransactionNumber
                                   (transactionStore st)\<rparr>))))
      else Some (Inr (genesisBlockNumber cfg), st))"

section \<open>The read queries\<close>

text \<open>JavaScript truthiness of an optional number (\<^verbatim>\<open>undefined\<close> and \<open>0\<close> are falsy) and of
  an optional string (\<^verbatim>\<open>undefined\<close> and the empty string are falsy).\<close>

definition truthyNumber :: "int option \<Rightarrow> bool" where
  "truthyNumber v = (case v of None \<Rightarrow> False | Some x \<Rightarrow> x \<noteq> 0)"

definition truthyString :: "string option \<Rightarrow> bool" where
  "truthyString v = (case v of None \<Rightarrow> False | Some s \<Rightarrow> s \<noteq> [])"

record TransactionsResult =
  moreTransactions :: bool
  resultTransactions :: "TransactionModel list"

text \<open>
  \<^verbatim>\<open>transactions (since, hash)\<close>. The \<^verbatim>\<open>map\<close> over the fetched records copies the five
  fields of \<open>TransactionModel\<close>, which is the identity on the record type here; the result's
  field \<^verbatim>\<open>transactions\<close> is \<open>resultTransactions\<close>.
\<close>

definition transactions ::
  "Config \<Rightarrow> Upstream \<Rightarrow> State \<Rightarrow> int option \<Rightarrow> string option \<Rightarrow> error + TransactionsResult" where
  "transactions cfg up st since hsh =
     (if (truthyNumber since \<and> \<not> truthyString hsh) \<or> (\<not> truthyNumber since \<and> truthyString hsh)
      then Inl (RequestError BadRequest None)
      else
        (case (case since of
                 Some s \<Rightarrow>
                   (case hsh of
                      Some h \<Rightarrow>
                        if truthyNumber since \<and> truthyString hsh
                        then verifyBlock up (getBlockNumber s) h
                        else Inr True
                    | None \<Rightarrow> Inr True)
               | None \<Rightarrow> Inr True) of
           Inl e \<Rightarrow> Inl e
         | Inr verified \<Rightarrow>
             if \<not> verified
             then Inl (RequestError BadRequest (Some InvalidTransactionNumberOrTimeHash))
             else
               (let found = getTransactionsLaterThan since (pageSize cfg) (transactionStore st)
                in Inr \<lparr>moreTransactions = (int (length found) = pageSize cfg),
                        resultTransactions = found\<rparr>)))"

text \<open>\<^verbatim>\<open>fee (block)\<close>; \<^verbatim>\<open>if (quantileValue)\<close> is the truthiness of an optional number.\<close>

definition fee :: "Config \<Rightarrow> State \<Rightarrow> int \<Rightarrow> real option" where
  "fee cfg st block =
     (let blockAfterHistoryOffset = max (block - historicalOffsetInBlocks cfg) 0;
          batch = blockAfterHistoryOffset div batchSizeInBlocks cfg;
          quantile = getQuantile (quantileCalculator st) batch
      in if truthyNumber quantile
         then (case quantile of
                 Some q \<Rightarrow> Some (real_of_int q * quantileScale cfg)
               | None \<Rightarrow> None)
         else None)"

section \<open>Processing a block\<close>

subsection \<open>Transaction fees\<close>

definition getTransactionOutValueInSatoshi :: "Upstream \<Rightarrow> string \<Rightarrow> int \<Rightarrow> error + int" where
  "getTransactionOutValueInSatoshi up transactionId outIdx =
     (case getrawtransaction up transactionId of
        None \<Rightarrow> Inl RpcError
      | Some xact \<Rightarrow>
          (case vout xact of
             None \<Rightarrow> Inl TypeError
           | Some outs \<Rightarrow>
               (case find (\<lambda>v. n v = outIdx) outs of
                  None \<Rightarrow> Inl TypeError
                | Some v \<Rightarrow> Inr (satoshis v))))"

text \<open>The loop over \<^verbatim>\<open>xact.vin\<close> of \<^verbatim>\<open>getTransactionFeeInSatoshi\<close>.\<close>

fun inputSatoshiSum :: "Upstream \<Rightarrow> TxIn list \<Rightarrow> int \<Rightarrow> error + int" where
  "inputSatoshiSum up [] acc = Inr acc"
| "inputSatoshiSum up (i # ins) acc =
     (case getTransactionOutValueInSatoshi up (prevTxid i) (prevVout i) of
        Inl e \<Rightarrow> Inl e
      | Inr xactOutValue \<Rightarrow> inputSatoshiSum up ins (acc + xactOutValue))"

definition getTransactionFeeInSatoshi :: "Upstream \<Rightarrow> string \<Rightarrow> error + int" where
  "getTransactionFeeInSatoshi up transactionId =
     (case getrawtransaction up transactionId of
        None \<Rightarrow> Inl RpcError
      | Some xact \<Rightarrow>
          (case vin xact of
             None \<Rightarrow> Inl TypeError
           | Some ins \<Rightarrow>
               (case inputSatoshiSum up ins 0 of
                  Inl e \<Rightarrow> Inl e
                | Inr inputSum \<Rightarrow>
                    (case vout xact of
                       None \<Rightarrow> Inl TypeError
                     | Some outs \<Rightarrow> Inr (inputSum - sum_list (map satoshis outs))))))"

subsection \<open>Anchor outputs\<close>

text \<open>
  \<^verbatim>\<open>script.asm.match (/\s*OP_RETURN ([0-9a-fA-F]+)$/)\<close>: the pattern is not anchored at the
  start, so it matches exactly the strings that end with \<^verbatim>\<open>OP_RETURN\<close>, one space and a
  non-empty run of hexadecimal digits; the group is that run.
\<close>

definition isHexDigit :: "char \<Rightarrow> bool" where
  "isHexDigit c = (c \<in> set ''0123456789abcdefABCDEF'')"

definition hexDataMatches :: "string \<Rightarrow> string option" where
  "hexDataMatches script =
     (let reversed = rev script;
          digits = takeWhile isHexDigit reversed;
          preceding = dropWhile isHexDigit reversed
      in if digits \<noteq> [] \<and> take 10 preceding = rev ''OP_RETURN ''
         then Some (rev digits) else None)"

text \<open>\<^verbatim>\<open>Buffer.from (hex, 'hex').toString ()\<close>: two digits make a byte, a last single digit is
  dropped. The decoded string is kept as its bytes. The prefix is ASCII, for which
  \<^verbatim>\<open>startsWith\<close> and \<^verbatim>\<open>slice\<close> on the decoded string and on the bytes agree, so which
  outputs are anchors is as in the code. The \<open>anchorString\<close> of a record is the payload's
  bytes: for a payload that is not valid UTF-8 the code stores the string in which the
  invalid bytes are replaced by U+FFFD, which the model does not compute.\<close>

definition hexValue :: "char \<Rightarrow> nat" where
  "hexValue c =
     (if c \<in> set ''0123456789'' then of_char c - 48
      else if c \<in> set ''abcdef'' then of_char c - 87
      else of_char c - 55)"

fun fromHex :: "string \<Rightarrow> string" where
  "fromHex (a # b # cs) = char_of (hexValue a * 16 + hexValue b) # fromHex cs"
| "fromHex cs = []"

definition startsWith :: "string \<Rightarrow> string \<Rightarrow> bool" where
  "startsWith d p = (take (length p) d = p)"

text \<open>The loop over \<^verbatim>\<open>allVOuts\<close> of
  \<^verbatim>\<open>addValidSidetreeTransactionsFromVOutsToTransactionStore\<close>; the last argument is the
  variable \<^verbatim>\<open>sidetreeTxToAdd\<close>.\<close>

fun sidetreeTxToAdd ::
  "Config \<Rightarrow> int \<Rightarrow> int \<Rightarrow> string \<Rightarrow> TxOut list \<Rightarrow> TransactionModel option
     \<Rightarrow> error + TransactionModel option" where
  "sidetreeTxToAdd cfg transactionIndex transactionBlock transactionHash [] found = Inr found"
| "sidetreeTxToAdd cfg transactionIndex transactionBlock transactionHash (out # outs) found =
     (case hexDataMatches (asm out) of
        None \<Rightarrow> sidetreeTxToAdd cfg transactionIndex transactionBlock transactionHash outs found
      | Some hex \<Rightarrow>
          (let d = fromHex hex;
               isSidetreeTx = startsWith d (sidetreePrefix cfg);
               oneSidetreeTxAlreadyFound = (found \<noteq> None)
           in if isSidetreeTx \<and> oneSidetreeTxAlreadyFound then Inl MoreThanOneAnchor
              else if isSidetreeTx then
                sidetreeTxToAdd cfg transactionIndex transactionBlock transactionHash outs
                  (Some \<lparr>transactionNumber = construct transactionBlock transactionIndex,
                         transactionTime = transactionBlock,
                         transactionTimeHash = transactionHash,
                         anchorString = drop (length (sidetreePrefix cfg)) d,
                         feePaid = 0\<rparr>)
              else sidetreeTxToAdd cfg transactionIndex transactionBlock transactionHash outs
                     found))"

definition addValidSidetreeTransactionsFromVOutsToTransactionStore ::
  "Config \<Rightarrow> Upstream \<Rightarrow> TxOut list \<Rightarrow> int \<Rightarrow> int \<Rightarrow> string \<Rightarrow> string \<Rightarrow> State
     \<Rightarrow> error + bool \<times> State" where
  "addValidSidetreeTransactionsFromVOutsToTransactionStore cfg up allVOuts transactionIndex
       transactionBlock transactionHash transactionId st =
     (case sidetreeTxToAdd cfg transactionIndex transactionBlock transactionHash allVOuts None of
        Inl e \<Rightarrow> Inl e
      | Inr None \<Rightarrow> Inr (False, st)
      | Inr (Some t) \<Rightarrow>
          (case getTransactionFeeInSatoshi up transactionId of
             Inl e \<Rightarrow> Inl e
           | Inr paid \<Rightarrow>
               Inr (True,
                 st\<lparr>transactionStore :=
                      addTransaction (t\<lparr>feePaid := paid\<rparr>) (transactionStore st)\<rparr>)))"

subsection \<open>processBlock\<close>

text \<open>The body of the loop over the block's transactions: a transaction without \<^verbatim>\<open>vout\<close> is
  passed over by \<^verbatim>\<open>continue\<close>, and whatever the \<^verbatim>\<open>try\<close> block throws is caught and logged,
  the state being what it was when the exception was thrown.\<close>

definition processBlockTransaction ::
  "Config \<Rightarrow> Upstream \<Rightarrow> int \<Rightarrow> string \<Rightarrow> int \<Rightarrow> BitcoinTransaction \<Rightarrow> State \<Rightarrow> State" where
  "processBlockTransaction cfg up block hsh transactionIndex t st =
     (case vout t of
        None \<Rightarrow> st
      | Some outputs \<Rightarrow>
          (case addValidSidetreeTransactionsFromVOutsToTransactionStore cfg up outputs
                  transactionIndex block hsh (txid t) st of
             Inl e \<Rightarrow> st
           | Inr (isSidetreeTransaction, st') \<Rightarrow>
               (case vin t of
                  None \<Rightarrow> st'
                | Some ins \<Rightarrow>
                    (let inputsCount = int (length ins)
                     in if \<not> isSidetreeTransaction \<and> inputsCount \<le> maxTransactionInputCount cfg
                        then st'\<lparr>transactionSampler :=
                                   transactionSampler st' @ [AddElement (txid t)]\<rparr>
                        else st'))))"

fun processBlockTransactions ::
  "Config \<Rightarrow> Upstream \<Rightarrow> int \<Rightarrow> string \<Rightarrow> int \<Rightarrow> BitcoinTransaction list \<Rightarrow> State \<Rightarrow> State" where
  "processBlockTransactions cfg up block hsh transactionIndex [] st = st"
| "processBlockTransactions cfg up block hsh transactionIndex (t # ts) st =
     processBlockTransactions cfg up block hsh (transactionIndex + 1) ts
       (processBlockTransaction cfg up block hsh transactionIndex t st)"

text \<open>The loop over the sampled transaction ids at a batch boundary.\<close>

fun sampledTransactionFees :: "Upstream \<Rightarrow> string list \<Rightarrow> error + int list" where
  "sampledTransactionFees up [] = Inr []"
| "sampledTransactionFees up (transactionId # ids) =
     (case getTransactionFeeInSatoshi up transactionId of
        Inl e \<Rightarrow> Inl e
      | Inr transactionFee \<Rightarrow>
          (case sampledTransactionFees up ids of
             Inl e \<Rightarrow> Inl e
           | Inr fees \<Rightarrow> Inr (transactionFee # fees)))"

text \<open>\<^verbatim>\<open>processBlock\<close> returns the block hash or throws, and leaves a state.\<close>

definition processBlock ::
  "Components \<Rightarrow> Config \<Rightarrow> Upstream \<Rightarrow> int \<Rightarrow> State \<Rightarrow> (error + string) \<times> State" where
  "processBlock cmp cfg up block st =
     (case getBlockHash up block of
        Inl e \<Rightarrow> (Inl e, st)
      | Inr hsh \<Rightarrow>
          (case getblock up hsh of
             None \<Rightarrow> (Inl RpcError, st)
           | Some responseData \<Rightarrow>
               (let st1 = st\<lparr>transactionSampler := transactionSampler st
                              @ [ResetPsuedoRandomSeed (blockHash responseData)]\<rparr>;
                    st2 = processBlockTransactions cfg up block (blockHash responseData) 0
                            (tx responseData) st1
                in if isBatchBoundary cfg block then
                     (case sampledTransactionFees up (getSample cmp (transactionSampler st2)) of
                        Inl e \<Rightarrow> (Inl e, st2)
                      | Inr fees \<Rightarrow>
                          (case quantileAdd cmp (getBatchId cfg block) fees
                                  (quantileCalculator st2) of
                             None \<Rightarrow> (Inl QuantileStoreError, st2)
                           | Some snapshots \<Rightarrow>
                               (Inr (blockHash responseData),
                                st2\<lparr>quantileCalculator := snapshots,
                                    transactionSampler := transactionSampler st2 @ [Clear]\<rparr>)))
                   else (Inr (blockHash responseData), st2))))"

text \<open>What \<^verbatim>\<open>processBlock\<close> does after the loop over the block's transactions, on the state
  the loop leaves: at a batch boundary the fees of the sampled transactions are given to the
  quantile calculator and the sampler is cleared; the block hash is returned.\<close>

definition processBlockBatch ::
  "Components \<Rightarrow> Config \<Rightarrow> Upstream \<Rightarrow> int \<Rightarrow> string \<Rightarrow> State \<Rightarrow> (error + string) \<times> State" where
  "processBlockBatch cmp cfg up block hsh st2 =
     (if isBatchBoundary cfg block then
        (case sampledTransactionFees up (getSample cmp (transactionSampler st2)) of
           Inl e \<Rightarrow> (Inl e, st2)
         | Inr fees \<Rightarrow>
             (case quantileAdd cmp (getBatchId cfg block) fees (quantileCalculator st2) of
                None \<Rightarrow> (Inl QuantileStoreError, st2)
              | Some snapshots \<Rightarrow>
                  (Inr hsh,
                   st2\<lparr>quantileCalculator := snapshots,
                       transactionSampler := transactionSampler st2 @ [Clear]\<rparr>)))
      else (Inr hsh, st2))"

section \<open>The sync loop\<close>

definition getCurrentBlockHeight :: "Upstream \<Rightarrow> error + int" where
  "getCurrentBlockHeight up =
     (case getblockcount up of None \<Rightarrow> Inl RpcError | Some response \<Rightarrow> Inr response)"

text \<open>The \<^verbatim>\<open>for\<close> loop of \<^verbatim>\<open>processTransactions\<close>, over the function that processes one
  block: it stops at the first block that throws.\<close>

function processBlockRange ::
  "(int \<Rightarrow> 's \<Rightarrow> (error + string) \<times> 's) \<Rightarrow> int \<Rightarrow> int \<Rightarrow> 's \<Rightarrow> error option \<times> 's" where
  "processBlockRange process blockHeight endBlockHeight st =
     (if blockHeight < endBlockHeight then
        (case process blockHeight st of
           (Inl e, st') \<Rightarrow> (Some e, st')
         | (Inr _, st') \<Rightarrow> processBlockRange process (blockHeight + 1) endBlockHeight st')
      else (None, st))"
  by pat_completeness auto
termination
  by (relation "measure (\<lambda>(process, blockHeight, endBlockHeight, st).
        nat (endBlockHeight - blockHeight))") auto

text \<open>\<^verbatim>\<open>processTransactions (startBlock, endBlockHeight)\<close>; \<open>None\<close> is a call that never
  returns (its rollback does not).\<close>

definition processTransactions ::
  "Components \<Rightarrow> Config \<Rightarrow> Upstream \<Rightarrow> IBlockInfo option \<Rightarrow> int option \<Rightarrow> State
     \<Rightarrow> ((error + IBlockInfo) \<times> State) option" where
  "processTransactions cmp cfg up startBlock endBlockHeight st =
     (case (case startBlock of
              Some start \<Rightarrow>
                (case verifyBlock up (height start) (hash start) of
                   Inl e \<Rightarrow> Some (Inl e, st)
                 | Inr startValid \<Rightarrow>
                     if \<not> startValid then revertBlockchainCache cfg up st
                     else Some (Inr (height start), st))
            | None \<Rightarrow> Some (Inr (genesisBlockNumber cfg), st)) of
        None \<Rightarrow> None
      | Some (Inl e, st1) \<Rightarrow> Some (Inl e, st1)
      | Some (Inr startBlockHeight, st1) \<Rightarrow>
          (case (case endBlockHeight of
                   None \<Rightarrow> getCurrentBlockHeight up
                 | Some given \<Rightarrow> Inr given) of
             Inl e \<Rightarrow> Some (Inl e, st1)
           | Inr endHeight \<Rightarrow>
               if startBlockHeight < genesisBlockNumber cfg \<or> endHeight < genesisBlockNumber cfg
               then Some (Inl BeforeGenesis, st1)
               else
                 (case processBlockRange (processBlock cmp cfg up) startBlockHeight endHeight
                         st1 of
                    (Some e, st2) \<Rightarrow> Some (Inl e, st2)
                  | (None, st2) \<Rightarrow>
                      (case processBlock cmp cfg up endHeight st2 of
                         (Inl e, st3) \<Rightarrow> Some (Inl e, st3)
                       | (Inr h, st3) \<Rightarrow>
                           Some (Inr \<lparr>height = endHeight, hash = h\<rparr>, st3)))))"

text \<open>What the specification says a tick does, for comparison with \<open>processTransactions\<close>: the
  blocks of a list of heights are processed one after the other, each once, up to the first
  that throws; the result is the hash of the last block processed.\<close>

fun processBlocksInOrder ::
  "(int \<Rightarrow> 's \<Rightarrow> (error + string) \<times> 's) \<Rightarrow> int list \<Rightarrow> string \<Rightarrow> 's \<Rightarrow> (error + string) \<times> 's" where
  "processBlocksInOrder process [] lastHash st = (Inr lastHash, st)"
| "processBlocksInOrder process (h # hs) lastHash st =
     (case process h st of
        (Inl e, st') \<Rightarrow> (Inl e, st')
      | (Inr processed, st') \<Rightarrow> processBlocksInOrder process hs processed st')"

section \<open>Fetching with retries\<close>

text \<open>
  \<^verbatim>\<open>nodeFetch\<close> is the network: the outcome of the call number \<open>k\<close> (from 0) made with a
  given \<^verbatim>\<open>timeout\<close> parameter, a response or a thrown error, which is a \<^verbatim>\<open>FetchError\<close> with
  its \<^verbatim>\<open>type\<close> or some other error. The calls of \<^verbatim>\<open>nodeFetch\<close> and of \<^verbatim>\<open>waitFor\<close> that
  \<^verbatim>\<open>fetchWithRetry\<close> makes are returned with its result.
\<close>

datatype FetchFailure = FetchError string | OtherError string

datatype 'r FetchOutcome = Resolved 'r | Rejected FetchFailure

datatype FetchCall = NodeFetch "int option" | WaitFor int

text \<open>The \<^verbatim>\<open>timeout\<close> member of the request parameters of the attempt made at
  \<open>retryCount\<close>: set only when \<^verbatim>\<open>setTimeout\<close> is true.\<close>

definition requestParams :: "Config \<Rightarrow> bool \<Rightarrow> nat \<Rightarrow> int option" where
  "requestParams cfg setTimeout retryCount =
     (let timeout = requestTimeout cfg * 2 ^ retryCount
      in if setTimeout then Some timeout else None)"

text \<open>The \<^verbatim>\<open>do ... while (true)\<close> loop of \<^verbatim>\<open>fetchWithRetry\<close>, from a value of
  \<open>retryCount\<close>. It retries only while \<open>retryCount < maxRetries\<close>, so it returns.\<close>

function fetchAttempts ::
  "Config \<Rightarrow> (nat \<Rightarrow> int option \<Rightarrow> 'r FetchOutcome) \<Rightarrow> bool \<Rightarrow> nat
     \<Rightarrow> FetchCall list \<times> (FetchFailure + 'r)" where
  "fetchAttempts cfg nodeFetch setTimeout retryCount =
     (let timeout = requestTimeout cfg * 2 ^ retryCount;
          params = requestParams cfg setTimeout retryCount
      in case nodeFetch retryCount params of
           Resolved response \<Rightarrow> ([NodeFetch params], Inr response)
         | Rejected failure \<Rightarrow>
             (case failure of
                FetchError kind \<Rightarrow>
                  if maxRetries cfg \<le> int retryCount then ([NodeFetch params], Inl failure)
                  else if kind = ''request-timeout'' then
                    (case fetchAttempts cfg nodeFetch setTimeout (Suc retryCount) of
                       (calls, outcome) \<Rightarrow>
                         (NodeFetch params # WaitFor timeout # calls, outcome))
                  else ([NodeFetch params], Inl failure)
              | OtherError message \<Rightarrow> ([NodeFetch params], Inl failure)))"
  by pat_completeness auto
termination
  by (relation "measure (\<lambda>(cfg, nodeFetch, setTimeout, retryCount).
        nat (maxRetries cfg - int retryCount))") auto

definition fetchWithRetry ::
  "Config \<Rightarrow> (nat \<Rightarrow> int option \<Rightarrow> 'r FetchOutcome) \<Rightarrow> bool
     \<Rightarrow> FetchCall list \<times> (FetchFailure + 'r)" where
  "fetchWithRetry cfg nodeFetch setTimeout = fetchAttempts cfg nodeFetch setTimeout 0"

section \<open>Predicates and projections used in the statements\<close>

text \<open>An output that \<open>sidetreeTxToAdd\<close> takes for an anchor: its script matches the pattern
  and the decoded data starts with the prefix.\<close>

definition isSidetreeOutput :: "Config \<Rightarrow> TxOut \<Rightarrow> bool" where
  "isSidetreeOutput cfg out =
     (case hexDataMatches (asm out) of
        None \<Rightarrow> False
      | Some hex \<Rightarrow> startsWith (fromHex hex) (sidetreePrefix cfg))"

text \<open>A log of one record, of index 0 in its block, whose block is no longer the
  upstream's.\<close>

definition stuck :: "Upstream \<Rightarrow> State \<Rightarrow> bool" where
  "stuck up st =
     (case transactionStore st of
        [] \<Rightarrow> False
      | t # ts \<Rightarrow>
          ts = [] \<and> transactionNumber t = construct (transactionTime t) 0 \<and>
          verifyBlock up (transactionTime t) (transactionTimeHash t) = Inr False)"

text \<open>The \<^verbatim>\<open>timeout\<close> parameters of the calls of \<^verbatim>\<open>nodeFetch\<close>, in the order of the calls.\<close>

fun nodeFetchCalls :: "FetchCall list \<Rightarrow> int option list" where
  "nodeFetchCalls [] = []"
| "nodeFetchCalls (NodeFetch params # calls) = params # nodeFetchCalls calls"
| "nodeFetchCalls (WaitFor milliseconds # calls) = nodeFetchCalls calls"

section \<open>Example configurations, chains and states\<close>

definition cfg4 :: Config where
  "cfg4 =
     \<lparr>sidetreePrefix = ''sidetree:'', genesisBlockNumber = 0, pageSize = 2,
      requestTimeout = 300, maxRetries = 3, historicalOffsetInBlocks = 0, quantileScale = 1,
      batchSizeInBlocks = 4, maxTransactionInputCount = 10\<rparr>"

definition anchorAt :: "int \<Rightarrow> int \<Rightarrow> string \<Rightarrow> TransactionModel" where
  "anchorAt h i hsh =
     \<lparr>transactionNumber = construct h i, transactionTime = h, transactionTimeHash = hsh,
      anchorString = ''a'', feePaid = 0\<rparr>"

definition snapshotOf :: "int \<Rightarrow> int \<Rightarrow> BatchQuantileSnapshot" where
  "snapshotOf b q = \<lparr>batchId = b, quantileValue = q, frequencyVector = []\<rparr>"

text \<open>An upstream whose blocks from height 6 on were replaced: the hash is \<open>old\<close> below 6
  and \<open>new\<close> from 6 on.\<close>

definition forkedAt6 :: Upstream where
  "forkedAt6 =
     \<lparr>getblockcount = Some 7,
      getblockhash = (\<lambda>h. if h < 6 then Some ''old'' else Some ''new''),
      getblock = (\<lambda>hsh. None),
      getrawtransaction = (\<lambda>transactionId. None)\<rparr>"

definition survivorAt5 :: State where
  "survivorAt5 =
     \<lparr>transactionStore = [anchorAt 5 1 ''old'', anchorAt 6 1 ''old''],
      transactionSampler = [],
      quantileCalculator = [snapshotOf 0 20, snapshotOf 1 100]\<rparr>"

definition staleBatches :: State where
  "staleBatches =
     \<lparr>transactionStore = [anchorAt 5 1 ''old'', anchorAt 13 1 ''old''],
      transactionSampler = [],
      quantileCalculator = [snapshotOf 0 20, snapshotOf 1 100, snapshotOf 2 30]\<rparr>"

definition singleStale :: State where
  "singleStale =
     \<lparr>transactionStore = [anchorAt 6 0 ''old''], transactionSampler = [],
      quantileCalculator = []\<rparr>"

definition zeroQuantile :: State where
  "zeroQuantile =
     \<lparr>transactionStore = [], transactionSampler = [],
      quantileCalculator = [snapshotOf 0 0, snapshotOf 1 100]\<rparr>"

definition blockZero :: State where
  "blockZero =
     \<lparr>transactionStore = [anchorAt 0 1 ''old'', anchorAt 5 1 ''old''],
      transactionSampler = [], quantileCalculator = []\<rparr>"

definition emptyState :: State where
  "emptyState = \<lparr>transactionStore = [], transactionSampler = [], quantileCalculator = []\<rparr>"

text \<open>A chain whose blocks 4, 5 and 6 hold no transaction, and components that sample
  nothing.\<close>

definition noSampling :: Components where
  "noSampling =
     \<lparr>getSample = (\<lambda>sampler. []),
      quantileAdd = (\<lambda>batch fees snapshots. Some snapshots)\<rparr>"

definition emptyBlocks :: Upstream where
  "emptyBlocks =
     \<lparr>getblockcount = Some 6,
      getblockhash =
        (\<lambda>h. if h = 4 then Some ''h4'' else if h = 5 then Some ''h5''
              else if h = 6 then Some ''h6'' else None),
      getblock =
        (\<lambda>hsh. if hsh \<in> set [''h4'', ''h5'', ''h6'']
                then Some \<lparr>blockHash = hsh, tx = []\<rparr> else None),
      getrawtransaction = (\<lambda>transactionId. None)\<rparr>"

definition seenBlock4 :: IBlockInfo where
  "seenBlock4 = \<lparr>height = 4, hash = ''h4''\<rparr>"

text \<open>Transactions of a block 7: \<open>payment\<close> has no data output, \<open>anchored\<close> has one output
  with the data \<open>sidetree:ab\<close>, \<open>twice\<close> has two outputs with the data \<open>sidetree:ab\<close> and
  \<open>sidetree:cd\<close>, \<open>bare\<close> has neither \<open>vin\<close> nor \<open>vout\<close>. \<open>funding\<close> is the transaction
  that \<open>payment\<close> and \<open>anchored\<close> spend.\<close>

definition payToAddress :: string where
  "payToAddress = ''OP_DUP OP_HASH160 ab12 OP_EQUALVERIFY OP_CHECKSIG''"

definition funding :: BitcoinTransaction where
  "funding =
     \<lparr>txid = ''funding'', vin = Some [],
      vout = Some [\<lparr>satoshis = 1000, n = 0, asm = payToAddress\<rparr>,
                   \<lparr>satoshis = 500, n = 1, asm = payToAddress\<rparr>]\<rparr>"

definition payment :: BitcoinTransaction where
  "payment =
     \<lparr>txid = ''payment'', vin = Some [\<lparr>prevTxid = ''funding'', prevVout = 0\<rparr>],
      vout = Some [\<lparr>satoshis = 900, n = 0, asm = payToAddress\<rparr>]\<rparr>"

definition anchored :: BitcoinTransaction where
  "anchored =
     \<lparr>txid = ''anchored'', vin = Some [\<lparr>prevTxid = ''funding'', prevVout = 1\<rparr>],
      vout = Some [\<lparr>satoshis = 0, n = 0, asm = ''OP_RETURN 73696465747265653a6162''\<rparr>,
                   \<lparr>satoshis = 400, n = 1, asm = payToAddress\<rparr>]\<rparr>"

definition twice :: BitcoinTransaction where
  "twice =
     \<lparr>txid = ''twice'', vin = Some [\<lparr>prevTxid = ''funding'', prevVout = 1\<rparr>],
      vout = Some [\<lparr>satoshis = 0, n = 0, asm = ''OP_RETURN 73696465747265653a6162''\<rparr>,
                   \<lparr>satoshis = 0, n = 1, asm = ''OP_RETURN 73696465747265653a6364''\<rparr>]\<rparr>"

definition bare :: BitcoinTransaction where
  "bare = \<lparr>txid = ''bare'', vin = None, vout = None\<rparr>"

text \<open>The chain whose block 7, of hash \<open>h7\<close>, holds the given transactions.\<close>

definition chainWith :: "BitcoinTransaction list \<Rightarrow> Upstream" where
  "chainWith transactions7 =
     \<lparr>getblockcount = Some 7,
      getblockhash = (\<lambda>h. if h = 7 then Some ''h7'' else None),
      getblock =
        (\<lambda>hsh. if hsh = ''h7'' then Some \<lparr>blockHash = ''h7'', tx = transactions7\<rparr> else None),
      getrawtransaction =
        (\<lambda>transactionId.
           if transactionId = ''funding'' then Some funding
           else if transactionId = ''payment'' then Some payment
           else if transactionId = ''anchored'' then Some anchored
           else if transactionId = ''twice'' then Some twice
           else None)\<rparr>"

definition chain7 :: Upstream where
  "chain7 = chainWith [payment, twice, anchored]"

definition chain7bare :: Upstream where
  "chain7bare = chainWith [payment, bare, anchored]"

text \<open>Components whose sample is every element offered, and whose quantile of a batch is
  the sum of the sampled fees.\<close>

fun offered :: "ReservoirSampler \<Rightarrow> string list" where
  "offered [] = []"
| "offered (AddElement element # calls) = element # offered calls"
| "offered (ResetPsuedoRandomSeed seed # calls) = offered calls"
| "offered (Clear # calls) = offered calls"

definition sampling :: Components where
  "sampling =
     \<lparr>getSample = offered,
      quantileAdd =
        (\<lambda>batch fees snapshots.
           Some (snapshots @
             [\<lparr>batchId = batch, quantileValue = sum_list fees, frequencyVector = []\<rparr>]))\<rparr>"

text \<open>The state after block 7, the last of batch 1, is processed from the empty state: the
  record of \<open>anchored\<close> (index 2, fee 100), the calls on the sampler, to which \<open>payment\<close>
  only was offered, and the snapshot of batch 1 made of the fee 100 of \<open>payment\<close>.\<close>

definition afterBlock7 :: State where
  "afterBlock7 =
     \<lparr>transactionStore =
        [\<lparr>transactionNumber = construct 7 2, transactionTime = 7, transactionTimeHash = ''h7'',
          anchorString = ''ab'', feePaid = 100\<rparr>],
      transactionSampler = [ResetPsuedoRandomSeed ''h7'', AddElement ''payment'', Clear],
      quantileCalculator = [\<lparr>batchId = 1, quantileValue = 100, frequencyVector = []\<rparr>]\<rparr>"

text \<open>Networks for \<open>fetchWithRetry\<close>.\<close>

definition alwaysTimesOut :: "nat \<Rightarrow> int option \<Rightarrow> string FetchOutcome" where
  "alwaysTimesOut k params = Rejected (FetchError ''request-timeout'')"

definition respondsAtOnce :: "nat \<Rightarrow> int option \<Rightarrow> string FetchOutcome" where
  "respondsAtOnce k params = Resolved ''response''"

section \<open>Rollback: the block to revert to\<close>

declare processBlockRange.simps [simp del]
declare fetchAttempts.simps [simp del]

lemma roundToBatchBoundary_floor:
  assumes "0 < batchSizeInBlocks cfg"
  shows "roundToBatchBoundary cfg block \<le> block"
    and "block < roundToBatchBoundary cfg block + batchSizeInBlocks cfg"
    and "roundToBatchBoundary cfg block mod batchSizeInBlocks cfg = 0"
proof -
  let ?b = "batchSizeInBlocks cfg"
  have eq: "roundToBatchBoundary cfg block = block - block mod ?b"
    by (simp add: roundToBatchBoundary_def minus_mod_eq_div_mult)
  have "0 \<le> block mod ?b" "block mod ?b < ?b"
    using assms by simp_all
  then show "roundToBatchBoundary cfg block \<le> block"
    and "block < roundToBatchBoundary cfg block + batchSizeInBlocks cfg"
    unfolding eq by linarith+
  show "roundToBatchBoundary cfg block mod batchSizeInBlocks cfg = 0"
    by (simp add: roundToBatchBoundary_def)
qed

text \<open>One iteration of the loop that finds a valid probe: what is returned and the state
  that is left.\<close>

lemma revert_survivor:
  assumes nonempty: "transactionStore st \<noteq> []"
    and surv: "firstValidTransaction up
                 (getExponentiallySpacedTransactions (transactionStore st)) = Inr (Some survivor)"
  shows "revertBlockchainCache cfg up st =
     Some (Inr (roundToBatchBoundary cfg (transactionTime survivor + 1)),
       st\<lparr>transactionStore :=
             removeTransactionsLaterThan
               (construct (roundToBatchBoundary cfg (transactionTime survivor + 1)) 0 - 1)
               (transactionStore st),
          transactionSampler := transactionSampler st @ [Clear],
          quantileCalculator :=
             removeBatchesGreaterThanOrEqual
               (roundToBatchBoundary cfg (transactionTime survivor + 1))
               (quantileCalculator st)\<rparr>)"
  using nonempty surv
  by (subst revertBlockchainCache.simps) (simp add: getTransactionsCount_def Let_def)

lemma firstValid_survivorAt5:
  "firstValidTransaction forkedAt6
     (getExponentiallySpacedTransactions (transactionStore survivorAt5)) =
   Inr (Some (anchorAt 5 1 ''old''))"
  by (simp add: getExponentiallySpacedTransactions_def survivorAt5_def verifyBlock_def
      getBlockHash_def forkedAt6_def anchorAt_def)

text \<open>
  Claim C1, as amended. When the log is not empty and a probe survives, the rollback returns
  the block to revert to, which is \<open>survivor.height + 1\<close> rounded DOWN to the first block of
  its batch: \<open>floor ((height + 1) / batch_size) * batch_size\<close>, a multiple of the batch size
  that is at most \<open>height + 1\<close> and more than \<open>height + 1 - batch_size\<close>.
\<close>

theorem revert_to_block_rounds_down:
  assumes "0 < batchSizeInBlocks cfg"
    and "transactionStore st \<noteq> []"
    and "firstValidTransaction up
           (getExponentiallySpacedTransactions (transactionStore st)) = Inr (Some survivor)"
  shows "\<exists>revertToBlock st'.
           revertBlockchainCache cfg up st = Some (Inr revertToBlock, st') \<and>
           revertToBlock = roundToBatchBoundary cfg (transactionTime survivor + 1) \<and>
           revertToBlock =
             (transactionTime survivor + 1) div batchSizeInBlocks cfg * batchSizeInBlocks cfg \<and>
           revertToBlock mod batchSizeInBlocks cfg = 0 \<and>
           revertToBlock \<le> transactionTime survivor + 1 \<and>
           transactionTime survivor + 1 < revertToBlock + batchSizeInBlocks cfg"
  using revert_survivor [OF assms(2,3), of cfg]
    roundToBatchBoundary_floor [OF assms(1), of "transactionTime survivor + 1"]
  by (simp add: roundToBatchBoundary_def)

text \<open>Witness for C1: batch size 4, records in blocks 5 and 6, the upstream replaced from
  block 6 on. The survivor is the record of block 5 and the block to revert to is 4.\<close>

theorem revert_to_block_rounds_down_witness:
  "0 < batchSizeInBlocks cfg4 \<and>
   transactionStore survivorAt5 \<noteq> [] \<and>
   firstValidTransaction forkedAt6
     (getExponentiallySpacedTransactions (transactionStore survivorAt5)) =
     Inr (Some (anchorAt 5 1 ''old'')) \<and>
   (\<exists>st'. revertBlockchainCache cfg4 forkedAt6 survivorAt5 = Some (Inr 4, st'))"
proof -
  have a: "0 < batchSizeInBlocks cfg4"
    by (simp add: cfg4_def)
  have b: "transactionStore survivorAt5 \<noteq> []"
    by (simp add: survivorAt5_def)
  show ?thesis
    using revert_to_block_rounds_down [OF a b firstValid_survivorAt5] a b firstValid_survivorAt5
    by (simp add: cfg4_def anchorAt_def roundToBatchBoundary_def)
qed

text \<open>Counterexample to C1 as stated: with batch size 4 and the survivor at block 5, the
  block to revert to is 4, not 8.\<close>

theorem revert_to_block_not_rounded_up:
  "transactionTime (anchorAt 5 1 ''old'') = 5 \<and>
   batchSizeInBlocks cfg4 = 4 \<and>
   roundToBatchBoundary cfg4 (5 + 1) \<noteq> 8 \<and>
   revertBlockchainCache cfg4 forkedAt6 survivorAt5 =
     Some (Inr 4,
       \<lparr>transactionStore = [], transactionSampler = [Clear],
        quantileCalculator = [snapshotOf 0 20, snapshotOf 1 100]\<rparr>)"
proof -
  have "roundToBatchBoundary cfg4 (transactionTime (anchorAt 5 1 ''old'') + 1) = 4"
    by (simp add: roundToBatchBoundary_def cfg4_def anchorAt_def)
  then show ?thesis
    using revert_survivor [OF _ firstValid_survivorAt5, of cfg4]
    by (simp add: survivorAt5_def roundToBatchBoundary_def cfg4_def anchorAt_def
        removeTransactionsLaterThan_def removeBatchesGreaterThanOrEqual_def construct_def
        snapshotOf_def)
qed

section \<open>Rollback: the quantile calculator\<close>

lemma firstValid_staleBatches:
  "firstValidTransaction forkedAt6
     (getExponentiallySpacedTransactions (transactionStore staleBatches)) =
   Inr (Some (anchorAt 5 1 ''old''))"
  by (simp add: getExponentiallySpacedTransactions_def staleBatches_def verifyBlock_def
      getBlockHash_def forkedAt6_def anchorAt_def)

text \<open>
  Claim C2 fails on the code. Batch size 4, snapshots of the batches 0, 1 and 2, the survivor
  at block 5: the block to revert to is 4, whose batch is 1, and \<open>revertBlockchainCache\<close>
  gives \<open>removeBatchesGreaterThanOrEqual\<close> the block number 4. The snapshots of the batches
  1 and 2 stay, while \<open>removeBatchesGreaterThanOrEqual (getBatchId 4)\<close> leaves the snapshot of
  batch 0 only.
\<close>

theorem revert_passes_block_number_to_quantile_calculator:
  "getBatchId cfg4 4 = 1 \<and>
   revertBlockchainCache cfg4 forkedAt6 staleBatches =
     Some (Inr 4,
       \<lparr>transactionStore = [], transactionSampler = [Clear],
        quantileCalculator = [snapshotOf 0 20, snapshotOf 1 100, snapshotOf 2 30]\<rparr>) \<and>
   removeBatchesGreaterThanOrEqual (getBatchId cfg4 4) (quantileCalculator staleBatches) =
     [snapshotOf 0 20]"
  using revert_survivor [OF _ firstValid_staleBatches, of cfg4]
  by (simp add: staleBatches_def roundToBatchBoundary_def cfg4_def anchorAt_def getBatchId_def
      removeBatchesGreaterThanOrEqual_def removeTransactionsLaterThan_def construct_def
      snapshotOf_def)

section \<open>Rollback: termination\<close>

lemma probes_single: "getExponentiallySpacedTransactions [t] = [t]"
  by (simp add: getExponentiallySpacedTransactions_def)

text \<open>From a log of one stale record of index 0, an iteration leaves the log as it was, so
  the loop returns from no such state.\<close>

lemma revert_stuck:
  assumes "revertBlockchainCache cfg up st = Some y"
  shows "\<not> stuck up st"
proof (rule revertBlockchainCache.raw_induct
    [where P = "\<lambda>cfg up st y. \<not> stuck up st", OF _ assms], goal_cases)
  case (1 f cfg up st y)
  show ?case
  proof
    assume s: "stuck up st"
    then obtain t where store: "transactionStore st = [t]"
      and num: "transactionNumber t = construct (transactionTime t) 0"
      and stale: "verifyBlock up (transactionTime t) (transactionTimeHash t) = Inr False"
      by (auto simp: stuck_def split: list.splits)
    have keep: "removeTransactionsLaterThan (construct (transactionTime t) 0) [t] = [t]"
      by (simp add: removeTransactionsLaterThan_def num)
    have same: "st\<lparr>transactionStore := [t]\<rparr> = st"
      using store by simp
    have "f cfg up st = Some y"
      using 1(2) by (simp add: getTransactionsCount_def probes_single stale keep same store)
    with 1(1) s show False by blast
  qed
qed

text \<open>
  Claim C3 fails on the code. The log holds one record, of index 0 in block 6, and the
  upstream has another block 6: no probe survives, \<open>removeTransactionsLaterThan
  (construct 6 0)\<close> removes nothing, and \<open>revertBlockchainCache\<close> never returns.
\<close>

theorem revert_loops_on_single_index0_record:
  "revertBlockchainCache cfg4 forkedAt6 singleStale = None"
proof -
  have "stuck forkedAt6 singleStale"
    by (simp add: stuck_def singleStale_def anchorAt_def verifyBlock_def getBlockHash_def
        forkedAt6_def)
  then show ?thesis
    using revert_stuck [of cfg4 forkedAt6 singleStale]
    by (cases "revertBlockchainCache cfg4 forkedAt6 singleStale") auto
qed

section \<open>The transactions query\<close>

text \<open>
  Claim C5 fails on the code at \<open>since = 0\<close>. The upstream's block 0 has the hash \<open>old\<close>.
  With \<open>since = 0\<close> and \<open>hash = old\<close> both parameters are supplied and the hash matches, yet
  the query throws \<open>BadRequest\<close>; with \<open>since = 0\<close> alone, one parameter is supplied and the
  query returns a page.
\<close>

theorem transactions_since_zero:
  "verifyBlock forkedAt6 (getBlockNumber 0) ''old'' = Inr True \<and>
   transactions cfg4 forkedAt6 blockZero (Some 0) (Some ''old'') =
     Inl (RequestError BadRequest None) \<and>
   transactions cfg4 forkedAt6 blockZero (Some 0) None =
     Inr \<lparr>moreTransactions = True,
          resultTransactions = [anchorAt 0 1 ''old'', anchorAt 5 1 ''old'']\<rparr>"
  by (simp add: transactions_def truthyNumber_def truthyString_def verifyBlock_def
      getBlockHash_def forkedAt6_def getBlockNumber_def getTransactionsLaterThan_def
      blockZero_def cfg4_def anchorAt_def construct_def)

text \<open>
  Claim C8. A query that succeeds returns the records of the log with a transaction number
  greater than \<open>since\<close> (all of them when \<open>since\<close> is absent), in the order of the log and
  cut at \<open>pageSize\<close>, and \<open>moreTransactions\<close> holds exactly when as many records as
  \<open>pageSize\<close> are returned.
\<close>

theorem transactions_page:
  assumes "transactions cfg up st since hsh = Inr r"
  shows "resultTransactions r =
           take (nat (pageSize cfg))
             (case since of
                None \<Rightarrow> transactionStore st
              | Some s \<Rightarrow> filter (\<lambda>t. s < transactionNumber t) (transactionStore st)) \<and>
         moreTransactions r = (int (length (resultTransactions r)) = pageSize cfg)"
  using assms
  by (auto simp: transactions_def getTransactionsLaterThan_def Let_def
      split: if_splits sum.splits)

text \<open>Witness for C8: page size 2, records in blocks 5 and 6, the query since the record
  of block 5 with the hash the upstream has for block 5.\<close>

theorem transactions_page_witness:
  "transactions cfg4 forkedAt6 survivorAt5 (Some (construct 5 1)) (Some ''old'') =
     Inr \<lparr>moreTransactions = False, resultTransactions = [anchorAt 6 1 ''old'']\<rparr> \<and>
   [anchorAt 6 1 ''old''] =
     take (nat (pageSize cfg4))
       (filter (\<lambda>t. construct 5 1 < transactionNumber t) (transactionStore survivorAt5)) \<and>
   int (length [anchorAt 6 1 ''old'']) \<noteq> pageSize cfg4"
proof -
  have q: "transactions cfg4 forkedAt6 survivorAt5 (Some (construct 5 1)) (Some ''old'') =
     Inr \<lparr>moreTransactions = False, resultTransactions = [anchorAt 6 1 ''old'']\<rparr>"
    by (simp add: transactions_def truthyNumber_def truthyString_def verifyBlock_def
        getBlockHash_def forkedAt6_def getBlockNumber_def getTransactionsLaterThan_def
        survivorAt5_def cfg4_def anchorAt_def construct_def)
  have r: "resultTransactions
             \<lparr>moreTransactions = False, resultTransactions = [anchorAt 6 1 ''old'']\<rparr> =
           take (nat (pageSize cfg4))
             (case Some (construct 5 1) of
                None \<Rightarrow> transactionStore survivorAt5
              | Some s \<Rightarrow> filter (\<lambda>t. s < transactionNumber t) (transactionStore survivorAt5)) \<and>
         moreTransactions
             \<lparr>moreTransactions = False, resultTransactions = [anchorAt 6 1 ''old'']\<rparr> =
           (int (length (resultTransactions
             \<lparr>moreTransactions = False, resultTransactions = [anchorAt 6 1 ''old'']\<rparr>)) =
            pageSize cfg4)"
    using transactions_page [OF q] .
  have "[anchorAt 6 1 ''old''] =
     take (nat (pageSize cfg4))
       (filter (\<lambda>t. construct 5 1 < transactionNumber t) (transactionStore survivorAt5))"
    using r [THEN conjunct1] by simp
  moreover have "int (length [anchorAt 6 1 ''old'']) \<noteq> pageSize cfg4"
    using r [THEN conjunct2] by simp
  ultimately show ?thesis
    using q by simp
qed

section \<open>The fee query\<close>

text \<open>
  Claim C6 fails on the code when the persisted quantile is 0. Batch size 4, no historical
  offset, snapshots \<open>(0, 0)\<close> and \<open>(1, 100)\<close>: block 3 is of batch 0, whose snapshot exists
  with the value 0, and \<open>fee 3\<close> is none, as for block 8 whose batch has no snapshot.
\<close>

theorem fee_of_zero_quantile:
  "getQuantile (quantileCalculator zeroQuantile)
     (getBatchId cfg4 (max (3 - historicalOffsetInBlocks cfg4) 0)) = Some 0 \<and>
   fee cfg4 zeroQuantile 3 = None \<and>
   fee cfg4 zeroQuantile 5 = Some 100 \<and>
   getQuantile (quantileCalculator zeroQuantile)
     (getBatchId cfg4 (max (8 - historicalOffsetInBlocks cfg4) 0)) = None \<and>
   fee cfg4 zeroQuantile 8 = None"
  by (simp add: fee_def getQuantile_def zeroQuantile_def cfg4_def snapshotOf_def getBatchId_def
      truthyNumber_def)

section \<open>Transactions that a block's loop passes over\<close>

lemma sidetreeTxToAdd_second:
  assumes "found \<noteq> None" and "filter (isSidetreeOutput cfg) outs \<noteq> []"
  shows "sidetreeTxToAdd cfg i b h outs found = Inl MoreThanOneAnchor"
  using assms
  by (induction outs) (auto simp: isSidetreeOutput_def Let_def split: option.splits)

lemma sidetreeTxToAdd_two:
  assumes "2 \<le> length (filter (isSidetreeOutput cfg) outs)"
  shows "sidetreeTxToAdd cfg i b h outs found = Inl MoreThanOneAnchor"
  using assms
proof (induction outs arbitrary: found)
  case Nil
  then show ?case by simp
next
  case (Cons out outs)
  show ?case
  proof (cases "isSidetreeOutput cfg out")
    case True
    with Cons.prems have rest: "filter (isSidetreeOutput cfg) outs \<noteq> []"
      by auto
    from True obtain hex where hex: "hexDataMatches (asm out) = Some hex"
      and pre: "startsWith (fromHex hex) (sidetreePrefix cfg)"
      by (auto simp: isSidetreeOutput_def split: option.splits)
    show ?thesis
      using hex pre sidetreeTxToAdd_second [OF _ rest] by (simp add: Let_def)
  next
    case False
    with Cons.prems have "2 \<le> length (filter (isSidetreeOutput cfg) outs)"
      by simp
    from Cons.IH [OF this] False show ?thesis
      by (auto simp: isSidetreeOutput_def Let_def split: option.splits)
  qed
qed

text \<open>The loop over a block's transactions, cut at a position: the transactions after it
  are processed from their own indices, on the state the ones before it left.\<close>

lemma processBlockTransactions_append:
  "processBlockTransactions cfg up block hsh i (earlier @ later) st =
     processBlockTransactions cfg up block hsh (i + int (length earlier)) later
       (processBlockTransactions cfg up block hsh i earlier st)"
  by (induction earlier arbitrary: i st) (simp_all add: add.assoc)

text \<open>In the loop, a transaction with two or more anchor outputs leaves the state as it
  was, at any index.\<close>

lemma double_anchor_skipped_in_loop:
  assumes "vout t = Some outs"
    and "2 \<le> length (filter (isSidetreeOutput cfg) outs)"
  shows "processBlockTransaction cfg up block hsh i t st = st"
  using assms(1) sidetreeTxToAdd_two [OF assms(2)]
  by (simp add: processBlockTransaction_def
      addValidSidetreeTransactionsFromVOutsToTransactionStore_def)

text \<open>\<open>processBlock\<close> on a block that the upstream returns: the sampler is reseeded with
  the block hash, the loop runs over the block's transactions from index 0, and the batch
  is closed on the state the loop leaves.\<close>

lemma processBlock_fetched:
  assumes "getblockhash up block = Some h"
    and "getblock up h = Some responseData"
  shows "processBlock cmp cfg up block st =
     processBlockBatch cmp cfg up block (blockHash responseData)
       (processBlockTransactions cfg up block (blockHash responseData) 0 (tx responseData)
          (st\<lparr>transactionSampler :=
                transactionSampler st @ [ResetPsuedoRandomSeed (blockHash responseData)]\<rparr>))"
  using assms
  by (simp add: processBlock_def getBlockHash_def processBlockBatch_def Let_def)

text \<open>
  Claim C7. Let \<open>processBlock\<close> process a block that the upstream returns, in which the
  transaction \<open>t\<close> has two or more outputs whose script is \<open>OP_RETURN\<close> with data that starts
  with the prefix. At its place in the loop \<open>t\<close> leaves the state as it was: no record is
  added to the log and its id is not offered to the sampler. \<open>processBlock\<close> does what it
  does on the transactions before and after \<open>t\<close>, each at its own index in the block, and
  then closes the batch.
\<close>

theorem double_anchor_transaction_is_skipped:
  assumes "getblockhash up block = Some h"
    and "getblock up h = Some responseData"
    and "tx responseData = earlier @ t # later"
    and "vout t = Some outs"
    and "2 \<le> length (filter (isSidetreeOutput cfg) outs)"
  shows "processBlockTransaction cfg up block (blockHash responseData) (int (length earlier)) t s
           = s \<and>
         processBlock cmp cfg up block st =
           processBlockBatch cmp cfg up block (blockHash responseData)
             (processBlockTransactions cfg up block (blockHash responseData)
                (int (length earlier) + 1) later
                (processBlockTransactions cfg up block (blockHash responseData) 0 earlier
                   (st\<lparr>transactionSampler :=
                         transactionSampler st
                           @ [ResetPsuedoRandomSeed (blockHash responseData)]\<rparr>)))"
  using processBlock_fetched [OF assms(1,2), of cmp cfg st]
  by (simp add: assms(3) processBlockTransactions_append
      double_anchor_skipped_in_loop [OF assms(4,5)])

lemma block7_others:
  "processBlockBatch sampling cfg4 (chainWith txs) 7 ''h7''
     (processBlockTransactions cfg4 (chainWith txs) 7 ''h7'' 2 [anchored]
        (processBlockTransactions cfg4 (chainWith txs) 7 ''h7'' 0 [payment]
           (emptyState\<lparr>transactionSampler :=
              transactionSampler emptyState @ [ResetPsuedoRandomSeed ''h7'']\<rparr>))) =
   (Inr ''h7'', afterBlock7)"
  by code_simp

lemma twice_outputs:
  "vout twice =
     Some [\<lparr>satoshis = 0, n = 0, asm = ''OP_RETURN 73696465747265653a6162''\<rparr>,
           \<lparr>satoshis = 0, n = 1, asm = ''OP_RETURN 73696465747265653a6364''\<rparr>]"
  "length (filter (isSidetreeOutput cfg4)
     [\<lparr>satoshis = 0, n = 0, asm = ''OP_RETURN 73696465747265653a6162''\<rparr>,
      \<lparr>satoshis = 0, n = 1, asm = ''OP_RETURN 73696465747265653a6364''\<rparr>]) = 2"
  by (simp add: twice_def) code_simp

text \<open>Witness for C7: block 7, the last of batch 1, holds \<open>payment\<close>, \<open>twice\<close> and
  \<open>anchored\<close>. \<open>processBlock\<close> returns the block hash; the log gets the record of \<open>anchored\<close>
  (index 2, fee 100), the sampler was offered \<open>payment\<close> only, and the snapshot of the batch
  is made of the fee of \<open>payment\<close>: \<open>twice\<close> leaves no trace.\<close>

theorem double_anchor_transaction_is_skipped_witness:
  "getblockhash chain7 7 = Some ''h7'' \<and>
   getblock chain7 ''h7'' = Some \<lparr>blockHash = ''h7'', tx = [payment] @ twice # [anchored]\<rparr> \<and>
   vout twice =
     Some [\<lparr>satoshis = 0, n = 0, asm = ''OP_RETURN 73696465747265653a6162''\<rparr>,
           \<lparr>satoshis = 0, n = 1, asm = ''OP_RETURN 73696465747265653a6364''\<rparr>] \<and>
   length (filter (isSidetreeOutput cfg4)
     [\<lparr>satoshis = 0, n = 0, asm = ''OP_RETURN 73696465747265653a6162''\<rparr>,
      \<lparr>satoshis = 0, n = 1, asm = ''OP_RETURN 73696465747265653a6364''\<rparr>]) = 2 \<and>
   processBlockTransaction cfg4 chain7 7 ''h7'' 1 twice afterBlock7 = afterBlock7 \<and>
   processBlock sampling cfg4 chain7 7 emptyState = (Inr ''h7'', afterBlock7)"
proof -
  have a: "getblockhash chain7 7 = Some ''h7''"
    by (simp add: chain7_def chainWith_def)
  have b: "getblock chain7 ''h7'' = Some \<lparr>blockHash = ''h7'', tx = [payment] @ twice # [anchored]\<rparr>"
    by (simp add: chain7_def chainWith_def)
  have c: "tx \<lparr>blockHash = ''h7'', tx = [payment] @ twice # [anchored]\<rparr> =
      [payment] @ twice # [anchored]"
    by simp
  have d: "2 \<le> length (filter (isSidetreeOutput cfg4)
     [\<lparr>satoshis = 0, n = 0, asm = ''OP_RETURN 73696465747265653a6162''\<rparr>,
      \<lparr>satoshis = 0, n = 1, asm = ''OP_RETURN 73696465747265653a6364''\<rparr>])"
    using twice_outputs(2) by simp
  note skipped = double_anchor_transaction_is_skipped
    [OF a b c twice_outputs(1) d, of afterBlock7 sampling emptyState]
  have e: "processBlockTransaction cfg4 chain7 7 ''h7'' 1 twice afterBlock7 = afterBlock7"
    using skipped [THEN conjunct1] by simp
  have f: "processBlock sampling cfg4 chain7 7 emptyState = (Inr ''h7'', afterBlock7)"
    using skipped [THEN conjunct2] block7_others [of "[payment, twice, anchored]"]
    by (simp add: chain7_def del: processBlockTransactions.simps)
  from a b twice_outputs e f show ?thesis
    by simp
qed

text \<open>In the loop, a transaction without \<open>vout\<close> leaves the state as it was, at any
  index.\<close>

lemma without_vout_skipped_in_loop:
  assumes "vout t = None"
  shows "processBlockTransaction cfg up block hsh i t st = st"
  using assms by (simp add: processBlockTransaction_def)

text \<open>
  Claim C10. Let \<open>processBlock\<close> process a block that the upstream returns, in which the
  transaction \<open>t\<close> has no \<open>vout\<close>. At its place in the loop \<open>t\<close> leaves the state as it was:
  no record is added to the log and its id is not offered to the sampler. \<open>processBlock\<close>
  does what it does on the transactions before and after \<open>t\<close>, each at its own index in the
  block, and then closes the batch: \<open>t\<close> makes it throw nothing, and on a block that is not
  the last of its batch it returns the block hash.
\<close>

theorem transaction_without_vout_is_skipped:
  assumes "getblockhash up block = Some h"
    and "getblock up h = Some responseData"
    and "tx responseData = earlier @ t # later"
    and "vout t = None"
  shows "processBlockTransaction cfg up block (blockHash responseData) (int (length earlier)) t s
           = s \<and>
         processBlock cmp cfg up block st =
           processBlockBatch cmp cfg up block (blockHash responseData)
             (processBlockTransactions cfg up block (blockHash responseData)
                (int (length earlier) + 1) later
                (processBlockTransactions cfg up block (blockHash responseData) 0 earlier
                   (st\<lparr>transactionSampler :=
                         transactionSampler st
                           @ [ResetPsuedoRandomSeed (blockHash responseData)]\<rparr>))) \<and>
         (isBatchBoundary cfg block \<or>
          fst (processBlock cmp cfg up block st) = Inr (blockHash responseData))"
  using processBlock_fetched [OF assms(1,2), of cmp cfg st]
  by (simp add: assms(3) processBlockTransactions_append
      without_vout_skipped_in_loop [OF assms(4)] processBlockBatch_def)

text \<open>Witness for C10: block 7, the last of batch 1, holds \<open>payment\<close>, \<open>bare\<close> and
  \<open>anchored\<close>. \<open>processBlock\<close> returns the block hash and leaves the state it leaves for the
  block without \<open>bare\<close>, the record of \<open>anchored\<close> being of index 2.\<close>

theorem transaction_without_vout_is_skipped_witness:
  "getblockhash chain7bare 7 = Some ''h7'' \<and>
   getblock chain7bare ''h7'' =
     Some \<lparr>blockHash = ''h7'', tx = [payment] @ bare # [anchored]\<rparr> \<and>
   vout bare = None \<and>
   processBlockTransaction cfg4 chain7bare 7 ''h7'' 1 bare afterBlock7 = afterBlock7 \<and>
   processBlock sampling cfg4 chain7bare 7 emptyState = (Inr ''h7'', afterBlock7)"
proof -
  have a: "getblockhash chain7bare 7 = Some ''h7''"
    by (simp add: chain7bare_def chainWith_def)
  have b: "getblock chain7bare ''h7'' =
      Some \<lparr>blockHash = ''h7'', tx = [payment] @ bare # [anchored]\<rparr>"
    by (simp add: chain7bare_def chainWith_def)
  have c: "tx \<lparr>blockHash = ''h7'', tx = [payment] @ bare # [anchored]\<rparr> =
      [payment] @ bare # [anchored]"
    by simp
  have d: "vout bare = None"
    by (simp add: bare_def)
  note skipped = transaction_without_vout_is_skipped
    [OF a b c d, of cfg4 afterBlock7 sampling emptyState]
  have e: "processBlockTransaction cfg4 chain7bare 7 ''h7'' 1 bare afterBlock7 = afterBlock7"
    using skipped [THEN conjunct1] by simp
  have f: "processBlock sampling cfg4 chain7bare 7 emptyState = (Inr ''h7'', afterBlock7)"
    using skipped [THEN conjunct2, THEN conjunct1] block7_others [of "[payment, bare, anchored]"]
    by (simp add: chain7bare_def del: processBlockTransactions.simps)
  from a b d e f show ?thesis
    by simp
qed

section \<open>The blocks a tick processes\<close>

text \<open>The loop of \<open>processTransactions\<close> followed by the call for the end block processes
  the heights from the start to the end, both included, in order.\<close>

lemma processBlockRange_in_order:
  "a \<le> b \<Longrightarrow>
   processBlocksInOrder process [a..b] lastHash st =
     (case processBlockRange process a b st of
        (Some e, st') \<Rightarrow> (Inl e, st')
      | (None, st') \<Rightarrow> process b st')"
proof (induction process a b st arbitrary: lastHash rule: processBlockRange.induct)
  case (1 process blockHeight endBlockHeight st)
  show ?case
  proof (cases "blockHeight < endBlockHeight")
    case True
    then have heights:
      "[blockHeight..endBlockHeight] = blockHeight # [blockHeight + 1..endBlockHeight]"
      by (simp add: upto_rec1)
    show ?thesis
    proof (cases "process blockHeight st")
      case (Pair outcome st')
      show ?thesis
      proof (cases outcome)
        case (Inl e)
        with Pair True heights show ?thesis
          by (simp add: processBlockRange.simps [of process blockHeight])
      next
        case (Inr processed)
        from True have le: "blockHeight + 1 \<le> endBlockHeight"
          by simp
        from "1.IH" [OF True Pair [symmetric, unfolded Inr] _ le, of processed]
          Pair Inr True heights
        show ?thesis
          by (simp add: processBlockRange.simps [of process blockHeight])
      qed
    qed
  next
    case False
    with "1.prems" have eq: "blockHeight = endBlockHeight"
      by simp
    show ?thesis
      by (simp add: eq processBlockRange.simps [of process endBlockHeight]
          split: prod.splits sum.splits)
  qed
qed

text \<open>
  Claim C4, as amended. On a tick whose starting block still matches the upstream, with
  \<open>genesis \<le> from.height \<le> tip\<close>, the engine processes the blocks \<open>from.height\<close> through the
  tip, both included, once each and in ascending order, up to the first block that throws:
  the block \<open>from.height\<close>, already seen, is processed again. The tick returns the tip and
  the hash of the last block.
\<close>

theorem tick_processes_from_start_inclusive:
  assumes "verifyBlock up (height start) (hash start) = Inr True"
    and "getblockcount up = Some tip"
    and "genesisBlockNumber cfg \<le> height start"
    and "height start \<le> tip"
  shows "processTransactions cmp cfg up (Some start) None st =
           Some (case processBlocksInOrder (processBlock cmp cfg up) [height start..tip] [] st of
                   (Inl e, st') \<Rightarrow> (Inl e, st')
                 | (Inr h, st') \<Rightarrow> (Inr \<lparr>height = tip, hash = h\<rparr>, st'))"
proof -
  have "genesisBlockNumber cfg \<le> tip"
    using assms(3,4) by simp
  then show ?thesis
    using assms
    by (simp add: processTransactions_def getCurrentBlockHeight_def
        processBlockRange_in_order [OF assms(4)] split: prod.splits sum.splits option.splits)
qed

lemma processBlock_emptyBlocks:
  "processBlock noSampling cfg4 emptyBlocks 4 st =
     (Inr ''h4'',
      st\<lparr>transactionSampler := transactionSampler st @ [ResetPsuedoRandomSeed ''h4'']\<rparr>)"
  "processBlock noSampling cfg4 emptyBlocks 5 st =
     (Inr ''h5'',
      st\<lparr>transactionSampler := transactionSampler st @ [ResetPsuedoRandomSeed ''h5'']\<rparr>)"
  "processBlock noSampling cfg4 emptyBlocks 6 st =
     (Inr ''h6'',
      st\<lparr>transactionSampler := transactionSampler st @ [ResetPsuedoRandomSeed ''h6'']\<rparr>)"
  by (simp_all add: processBlock_def getBlockHash_def emptyBlocks_def isBatchBoundary_def
      cfg4_def)

lemma upto_4_6: "[4..6] = [4, 5, 6::int]" "[4 + 1..6] = [5, 6::int]"
  by (simp_all add: upto_rec1)

lemma seenBlock4_valid:
  "verifyBlock emptyBlocks (height seenBlock4) (hash seenBlock4) = Inr True"
  by (simp add: verifyBlock_def getBlockHash_def emptyBlocks_def seenBlock4_def)

lemma emptyState_sampler: "transactionSampler emptyState = []"
  by (simp add: emptyState_def)

text \<open>Witness for C4: the last seen block is 4, the tip is 6 and the blocks hold no
  transaction. The sampler is reseeded with the hashes of the blocks 4, 5 and 6.\<close>

theorem tick_processes_from_start_inclusive_witness:
  "verifyBlock emptyBlocks (height seenBlock4) (hash seenBlock4) = Inr True \<and>
   getblockcount emptyBlocks = Some 6 \<and>
   genesisBlockNumber cfg4 \<le> height seenBlock4 \<and> height seenBlock4 \<le> 6 \<and>
   processTransactions noSampling cfg4 emptyBlocks (Some seenBlock4) None emptyState =
     Some (Inr \<lparr>height = 6, hash = ''h6''\<rparr>,
           emptyState\<lparr>transactionSampler :=
             [ResetPsuedoRandomSeed ''h4'', ResetPsuedoRandomSeed ''h5'',
              ResetPsuedoRandomSeed ''h6'']\<rparr>)"
proof -
  have b: "getblockcount emptyBlocks = Some 6"
    by (simp add: emptyBlocks_def)
  have c: "genesisBlockNumber cfg4 \<le> height seenBlock4"
    by (simp add: cfg4_def seenBlock4_def)
  have d: "height seenBlock4 \<le> 6"
    by (simp add: seenBlock4_def)
  have e: "[height seenBlock4..6] = [4, 5, 6]"
    by (simp add: seenBlock4_def upto_4_6)
  show ?thesis
    using tick_processes_from_start_inclusive [OF seenBlock4_valid b c d, of noSampling emptyState]
      seenBlock4_valid b c d
    by (simp add: e processBlock_emptyBlocks emptyState_sampler)
qed

text \<open>Counterexample to C4 as stated: in the same tick the block 4, the one already seen,
  is processed again; processing the blocks \<open>from.height + 1\<close> through the tip would reseed
  the sampler with the hashes of the blocks 5 and 6 only.\<close>

theorem tick_reprocesses_start_block:
  "verifyBlock emptyBlocks (height seenBlock4) (hash seenBlock4) = Inr True \<and>
   processTransactions noSampling cfg4 emptyBlocks (Some seenBlock4) None emptyState =
     Some (Inr \<lparr>height = 6, hash = ''h6''\<rparr>,
           emptyState\<lparr>transactionSampler :=
             [ResetPsuedoRandomSeed ''h4'', ResetPsuedoRandomSeed ''h5'',
              ResetPsuedoRandomSeed ''h6'']\<rparr>) \<and>
   processBlocksInOrder (processBlock noSampling cfg4 emptyBlocks)
       [height seenBlock4 + 1..6] [] emptyState =
     (Inr ''h6'',
      emptyState\<lparr>transactionSampler :=
        [ResetPsuedoRandomSeed ''h5'', ResetPsuedoRandomSeed ''h6'']\<rparr>) \<and>
   map_option snd
       (processTransactions noSampling cfg4 emptyBlocks (Some seenBlock4) None emptyState) \<noteq>
     Some (snd (processBlocksInOrder (processBlock noSampling cfg4 emptyBlocks)
                  [height seenBlock4 + 1..6] [] emptyState))"
proof -
  have r: "processBlockRange (processBlock noSampling cfg4 emptyBlocks) 4 6 emptyState =
      (None, emptyState\<lparr>transactionSampler :=
          [ResetPsuedoRandomSeed ''h4'', ResetPsuedoRandomSeed ''h5'']\<rparr>)"
    by (simp add: processBlockRange.simps [of _ 4] processBlockRange.simps [of _ 5]
        processBlockRange.simps [of _ 6] processBlock_emptyBlocks emptyState_sampler)
  have f: "genesisBlockNumber cfg4 = 0" "getblockcount emptyBlocks = Some 6"
    "height seenBlock4 = 4" "hash seenBlock4 = ''h4''"
    by (simp_all add: cfg4_def emptyBlocks_def seenBlock4_def)
  have p: "processTransactions noSampling cfg4 emptyBlocks (Some seenBlock4) None emptyState =
     Some (Inr \<lparr>height = 6, hash = ''h6''\<rparr>,
           emptyState\<lparr>transactionSampler :=
             [ResetPsuedoRandomSeed ''h4'', ResetPsuedoRandomSeed ''h5'',
              ResetPsuedoRandomSeed ''h6'']\<rparr>)"
    using seenBlock4_valid
    by (simp add: processTransactions_def getCurrentBlockHeight_def f r processBlock_emptyBlocks)
  have s: "processBlocksInOrder (processBlock noSampling cfg4 emptyBlocks)
       [height seenBlock4 + 1..6] [] emptyState =
     (Inr ''h6'',
      emptyState\<lparr>transactionSampler :=
        [ResetPsuedoRandomSeed ''h5'', ResetPsuedoRandomSeed ''h6'']\<rparr>)"
    by (simp add: f upto_4_6 processBlock_emptyBlocks emptyState_sampler)
  have "emptyState\<lparr>transactionSampler :=
             [ResetPsuedoRandomSeed ''h4'', ResetPsuedoRandomSeed ''h5'',
              ResetPsuedoRandomSeed ''h6'']\<rparr> \<noteq>
        emptyState\<lparr>transactionSampler :=
             [ResetPsuedoRandomSeed ''h5'', ResetPsuedoRandomSeed ''h6'']\<rparr>"
    by (simp add: emptyState_def)
  with seenBlock4_valid p s show ?thesis
    by simp
qed

section \<open>Retries of a fetch\<close>

text \<open>The loop from \<open>retryCount = j\<close>, when the attempts \<open>j\<close> to \<open>m - 1\<close> time out below
  the bound on retries and the attempt \<open>m\<close> is not retried.\<close>

lemma fetchAttempts_from:
  assumes retried: "\<forall>k. j \<le> k \<and> k < m \<longrightarrow>
              nodeFetch k (requestParams cfg setTimeout k) =
                Rejected (FetchError ''request-timeout'') \<and>
              int k < maxRetries cfg"
    and final: "nodeFetch m (requestParams cfg setTimeout m) \<noteq>
                  Rejected (FetchError ''request-timeout'') \<or>
                maxRetries cfg \<le> int m"
    and "j \<le> m"
  shows "snd (fetchAttempts cfg nodeFetch setTimeout j) =
           (case nodeFetch m (requestParams cfg setTimeout m) of
              Resolved response \<Rightarrow> Inr response
            | Rejected failure \<Rightarrow> Inl failure) \<and>
         nodeFetchCalls (fst (fetchAttempts cfg nodeFetch setTimeout j)) =
           map (requestParams cfg setTimeout) [j..<Suc m]"
  using assms
proof (induction "m - j" arbitrary: j)
  case 0
  then have jm: "j = m"
    by simp
  show ?case
    using "0.prems"(2)
    by (subst (1 2) fetchAttempts.simps)
       (auto simp: jm Let_def split: FetchOutcome.splits FetchFailure.splits)
next
  case (Suc d)
  then have lt: "j < m" and d: "d = m - Suc j"
    by simp_all
  from Suc.prems(1) lt
  have now: "nodeFetch j (requestParams cfg setTimeout j) =
      Rejected (FetchError ''request-timeout'')"
    and more: "int j < maxRetries cfg"
    by auto
  have rest: "\<forall>k. Suc j \<le> k \<and> k < m \<longrightarrow>
              nodeFetch k (requestParams cfg setTimeout k) =
                Rejected (FetchError ''request-timeout'') \<and>
              int k < maxRetries cfg"
    using Suc.prems(1) by auto
  from lt have le: "Suc j \<le> m"
    by simp
  note IH = Suc.hyps(1) [OF d rest Suc.prems(2) le]
  have heights: "[j..<Suc m] = j # [Suc j..<Suc m]"
    using lt by (simp add: upt_conv_Cons)
  obtain calls outcome where next_attempts:
    "fetchAttempts cfg nodeFetch setTimeout (Suc j) = (calls, outcome)"
    by (cases "fetchAttempts cfg nodeFetch setTimeout (Suc j)")
  have step: "fetchAttempts cfg nodeFetch setTimeout j =
      (NodeFetch (requestParams cfg setTimeout j) # WaitFor (requestTimeout cfg * 2 ^ j) # calls,
       outcome)"
    using now more by (subst fetchAttempts.simps) (simp add: Let_def next_attempts)
  show ?case
    using IH by (simp add: step next_attempts heights del: upt_Suc)
qed

text \<open>
  Claim C9, as amended. Let the attempts 0 to \<open>m - 1\<close> time out, each below the bound on
  retries, and let the attempt \<open>m\<close> be one that is not retried: it returns a response, or
  throws an error that is not a timeout, or \<open>m\<close> has reached \<open>maxRetries\<close>. Then
  \<open>fetchWithRetry\<close> makes the \<open>m + 1\<close> attempts 0 to \<open>m\<close> and no other, and returns or throws
  what the attempt \<open>m\<close> did: a timeout is retried until \<open>maxRetries\<close> retries were made and is
  then thrown, any other error is thrown at once. The attempt \<open>k\<close> is made with the timeout
  \<open>requestTimeout * 2^k\<close> when \<open>setTimeout\<close> is true, and with no timeout when it is false.
\<close>

theorem fetchWithRetry_backoff:
  assumes "\<forall>k<m. nodeFetch k (requestParams cfg setTimeout k) =
                    Rejected (FetchError ''request-timeout'') \<and>
                  int k < maxRetries cfg"
    and "nodeFetch m (requestParams cfg setTimeout m) \<noteq>
           Rejected (FetchError ''request-timeout'') \<or>
         maxRetries cfg \<le> int m"
  shows "snd (fetchWithRetry cfg nodeFetch setTimeout) =
           (case nodeFetch m (requestParams cfg setTimeout m) of
              Resolved response \<Rightarrow> Inr response
            | Rejected failure \<Rightarrow> Inl failure) \<and>
         nodeFetchCalls (fst (fetchWithRetry cfg nodeFetch setTimeout)) =
           map (requestParams cfg setTimeout) [0..<Suc m] \<and>
         (\<forall>k. requestParams cfg True k = Some (requestTimeout cfg * 2 ^ k) \<and>
              requestParams cfg False k = None)"
proof -
  have "\<forall>k. 0 \<le> k \<and> k < m \<longrightarrow>
              nodeFetch k (requestParams cfg setTimeout k) =
                Rejected (FetchError ''request-timeout'') \<and>
              int k < maxRetries cfg"
    using assms(1) by simp
  from fetchAttempts_from [where nodeFetch = nodeFetch and j = 0 and m = m, OF this assms(2)]
  show ?thesis
    by (simp add: fetchWithRetry_def requestParams_def del: upt_Suc)
qed

text \<open>Witness for C9: \<open>requestTimeout = 300\<close>, \<open>maxRetries = 3\<close> and a network on which every
  attempt times out. Four attempts are made, with the timeouts 300, 600, 1200 and 2400, and
  the timeout is thrown.\<close>

theorem fetchWithRetry_backoff_witness:
  "maxRetries cfg4 = 3 \<and>
   requestTimeout cfg4 = 300 \<and>
   alwaysTimesOut 3 (requestParams cfg4 True 3) = Rejected (FetchError ''request-timeout'') \<and>
   snd (fetchWithRetry cfg4 alwaysTimesOut True) = Inl (FetchError ''request-timeout'') \<and>
   nodeFetchCalls (fst (fetchWithRetry cfg4 alwaysTimesOut True)) =
     [Some 300, Some 600, Some 1200, Some 2400]"
proof -
  have a: "\<forall>k<3. alwaysTimesOut k (requestParams cfg4 True k) =
                    Rejected (FetchError ''request-timeout'') \<and>
                  int k < maxRetries cfg4"
    by (simp add: alwaysTimesOut_def cfg4_def)
  have b: "alwaysTimesOut 3 (requestParams cfg4 True 3) \<noteq>
             Rejected (FetchError ''request-timeout'') \<or>
           maxRetries cfg4 \<le> int 3"
    by (simp add: cfg4_def)
  have c: "map (requestParams cfg4 True) [0..<Suc 3] =
      [Some 300, Some 600, Some 1200, Some 2400]"
    by (simp add: upt_rec requestParams_def cfg4_def)
  show ?thesis
    using fetchWithRetry_backoff
      [where nodeFetch = alwaysTimesOut and m = 3 and cfg = cfg4 and setTimeout = True, OF a b]
      c
    by (simp add: alwaysTimesOut_def del: upt_Suc) (simp add: cfg4_def)
qed

text \<open>Counterexample to C9 as stated: a fetch made with \<open>setTimeout\<close> false makes its
  attempt 0 with no timeout, not with \<open>requestTimeout * 2^0\<close>.\<close>

theorem fetchWithRetry_without_timeout:
  "fetchWithRetry cfg4 respondsAtOnce False = ([NodeFetch None], Inr ''response'') \<and>
   nodeFetchCalls (fst (fetchWithRetry cfg4 respondsAtOnce False)) \<noteq>
     [Some (requestTimeout cfg4 * 2 ^ 0)]"
  by (simp add: fetchWithRetry_def fetchAttempts.simps [of _ _ _ 0] requestParams_def
      respondsAtOnce_def)

end
